theory Spec2Isabelle
  imports Complex_Main
begin

section \<open>Python values\<close>

text \<open>
  A Python \<open>str\<close> is a sequence of Unicode code points; it is modelled as a list of
  natural numbers (the code points), so that \<open>len\<close> is \<open>length\<close>. \<open>Str\<close> turns an
  ASCII literal into such a string. A Python \<open>float\<close> is modelled as a real number:
  the arithmetic of the model is exact, every threshold comparison of the source is a
  comparison of the same decimal literals.
\<close>

type_synonym pystr = "nat list"

definition Str :: "string \<Rightarrow> pystr" where
  "Str s = map of_char s"

section \<open>advanced\_extractor.py: the data model\<close>

record ExtractionResult =
  er_value :: pystr
  er_confidence :: real
  er_method :: pystr
  er_raw_match :: pystr

section \<open>advanced\_extractor.py: the aggregate confidence\<close>

text \<open>
  \<open>field_weights\<close> is the dict literal of \<open>_calculate_overall_confidence\<close>, in
  insertion order; \<open>weight_of_index i\<close> is the weight the loop looks up for position
  \<open>i\<close>: the \<open>i\<close>-th key when there is one, the key \<open>other\<close> (absent, so the default
  0.05) otherwise.
\<close>

definition field_weights :: "(pystr \<times> real) list" where
  "field_weights =
     [(Str ''origin'', 0.25), (Str ''destination'', 0.25), (Str ''commodity'', 0.20),
      (Str ''weight'', 0.15), (Str ''urgency'', 0.10), (Str ''contact_name'', 0.05)]"

definition weight_of_index :: "nat \<Rightarrow> real" where
  "weight_of_index i =
     (let field_name = (if i < length field_weights then fst (field_weights ! i)
                        else Str ''other'')
      in case map_of field_weights field_name of Some w \<Rightarrow> w | None \<Rightarrow> 0.05)"

text \<open>The loop over \<open>enumerate(results)\<close>, on the pair (weighted\_score, total\_weight).\<close>

fun accumulate :: "(nat \<times> ExtractionResult) list \<Rightarrow> real \<times> real \<Rightarrow> real \<times> real" where
  "accumulate [] acc = acc"
| "accumulate ((i, r) # rest) (weighted_score, total_weight) =
     (if er_confidence r > 0
      then accumulate rest (weighted_score + er_confidence r * weight_of_index i,
                            total_weight + weight_of_index i)
      else accumulate rest (weighted_score, total_weight))"

definition calculate_overall_confidence :: "ExtractionResult list \<Rightarrow> real" where
  "calculate_overall_confidence results =
     (if results = [] then 0.0
      else
        let (weighted_score, total_weight) = accumulate (enumerate 0 results) (0.0, 0.0);
            weighted_score =
              (if length (filter (\<lambda>r. er_confidence r > 0.7) (take 4 results)) \<ge> 3
               then weighted_score * 1.1 else weighted_score)
        in if total_weight > 0 then min (weighted_score / total_weight) 1.0 else 0.0)"

text \<open>The same result with another confidence, for statements about one component.\<close>

definition with_confidence :: "ExtractionResult \<Rightarrow> real \<Rightarrow> ExtractionResult" where
  "with_confidence r c = r\<lparr>er_confidence := c\<rparr>"

definition found :: "real \<Rightarrow> ExtractionResult" where
  "found c = \<lparr>er_value = Str ''x'', er_confidence = c, er_method = Str ''m'',
              er_raw_match = []\<rparr>"

definition nothing :: ExtractionResult where
  "nothing = \<lparr>er_value = [], er_confidence = 0.0, er_method = Str ''none'',
              er_raw_match = []\<rparr>"

section \<open>Properties of the aggregate confidence\<close>

lemma weight_of_index_pos: "0 < weight_of_index i"
proof -
  have "i = 0 \<or> i = 1 \<or> i = 2 \<or> i = 3 \<or> i = 4 \<or> i = 5 \<or> 6 \<le> i" by arith
  then show ?thesis
    by (auto simp: weight_of_index_def field_weights_def Str_def)
qed

text \<open>
  Two enumerated lists are related when they agree position by position except that a
  positive confidence may have grown.
\<close>

definition grown :: "nat \<times> ExtractionResult \<Rightarrow> nat \<times> ExtractionResult \<Rightarrow> bool" where
  "grown a b \<longleftrightarrow> fst a = fst b \<and>
     (er_confidence (snd a) = er_confidence (snd b) \<or>
      (0 < er_confidence (snd a) \<and> er_confidence (snd a) \<le> er_confidence (snd b)))"

lemma accumulate_grown:
  "list_all2 grown xs ys \<Longrightarrow> w \<le> w' \<Longrightarrow>
   fst (accumulate xs (w, t)) \<le> fst (accumulate ys (w', t)) \<and>
   snd (accumulate xs (w, t)) = snd (accumulate ys (w', t))"
proof (induction xs ys arbitrary: w w' t rule: list_all2_induct)
  case Nil
  then show ?case by simp
next
  case (Cons a xs b ys)
  obtain i r where a: "a = (i, r)" by (cases a)
  obtain j r' where b: "b = (j, r')" by (cases b)
  from Cons.hyps(1) a b have ij: "j = i"
    and rel: "er_confidence r = er_confidence r' \<or>
              (0 < er_confidence r \<and> er_confidence r \<le> er_confidence r')"
    by (auto simp: grown_def)
  have wp: "0 < weight_of_index i" by (rule weight_of_index_pos)
  show ?case
  proof (cases "0 < er_confidence r")
    case True
    with rel have pos': "0 < er_confidence r'" and le: "er_confidence r \<le> er_confidence r'"
      by auto
    from le wp have "er_confidence r * weight_of_index i \<le> er_confidence r' * weight_of_index i"
      by (simp add: mult_right_mono)
    with Cons.prems have "w + er_confidence r * weight_of_index i
        \<le> w' + er_confidence r' * weight_of_index i" by simp
    from Cons.IH [OF this, of "t + weight_of_index i"] True pos' show ?thesis
      by (simp add: a b ij)
  next
    case False
    with rel have "\<not> 0 < er_confidence r'" by auto
    with Cons.IH [OF Cons.prems, of t] False show ?thesis
      by (simp add: a b ij)
  qed
qed

lemma accumulate_nonneg:
  "0 \<le> w \<Longrightarrow> 0 \<le> t \<Longrightarrow> 0 \<le> fst (accumulate xs (w, t)) \<and> 0 \<le> snd (accumulate xs (w, t))"
proof (induction xs arbitrary: w t)
  case Nil
  then show ?case by simp
next
  case (Cons a xs)
  obtain i r where a: "a = (i, r)" by (cases a)
  have wp: "0 < weight_of_index i" by (rule weight_of_index_pos)
  show ?case
  proof (cases "0 < er_confidence r")
    case True
    with wp have "0 \<le> er_confidence r * weight_of_index i" by simp
    with Cons.prems wp have "0 \<le> w + er_confidence r * weight_of_index i"
      and "0 \<le> t + weight_of_index i" by simp_all
    from Cons.IH [OF this] True show ?thesis by (simp add: a)
  next
    case False
    with Cons.IH [OF Cons.prems] show ?thesis by (simp add: a)
  qed
qed

lemma bonus_count_mono:
  "list_all2 (\<lambda>a b. er_confidence a \<le> er_confidence b) xs ys \<Longrightarrow>
   length (filter (\<lambda>r. er_confidence r > c) xs) \<le> length (filter (\<lambda>r. er_confidence r > c) ys)"
  by (induction xs ys rule: list_all2_induct) auto

lemma overall_confidence_grown:
  assumes rel: "list_all2 (\<lambda>a b. er_confidence a = er_confidence b \<or>
                  (0 < er_confidence a \<and> er_confidence a \<le> er_confidence b)) rs rs'"
  shows "calculate_overall_confidence rs \<le> calculate_overall_confidence rs'"
proof (cases "rs = []")
  case True
  with rel have "rs' = []" by simp
  with True show ?thesis by simp
next
  case False
  with rel have ne': "rs' \<noteq> []" by auto
  from rel have len: "length rs = length rs'" by (rule list_all2_lengthD)
  have "list_all2 grown (enumerate 0 rs) (enumerate 0 rs')"
    using rel len
    by (auto simp: list_all2_conv_all_nth nth_enumerate_eq grown_def)
  from accumulate_grown [OF this, of 0 0 0]
  have ws: "fst (accumulate (enumerate 0 rs) (0, 0)) \<le> fst (accumulate (enumerate 0 rs') (0, 0))"
    and tw: "snd (accumulate (enumerate 0 rs) (0, 0)) = snd (accumulate (enumerate 0 rs') (0, 0))"
    by simp_all
  define w where "w = fst (accumulate (enumerate 0 rs) (0, 0))"
  define w' where "w' = fst (accumulate (enumerate 0 rs') (0, 0))"
  define t where "t = snd (accumulate (enumerate 0 rs) (0, 0))"
  have acc: "accumulate (enumerate 0 rs) (0, 0) = (w, t)"
    and acc': "accumulate (enumerate 0 rs') (0, 0) = (w', t)"
    using tw by (simp_all add: w_def w'_def t_def prod_eq_iff)
  have w0: "0 \<le> w" using accumulate_nonneg [of 0 0 "enumerate 0 rs"] by (simp add: w_def)
  have ww: "w \<le> w'" using ws by (simp add: w_def w'_def)
  have "list_all2 (\<lambda>a b. er_confidence a \<le> er_confidence b) (take 4 rs) (take 4 rs')"
    using rel by (auto simp: list_all2_conv_all_nth)
  from bonus_count_mono [OF this, of "0.7"]
  have cnt: "length (filter (\<lambda>r. er_confidence r > 0.7) (take 4 rs))
      \<le> length (filter (\<lambda>r. er_confidence r > 0.7) (take 4 rs'))" .
  define b where "b = (if length (filter (\<lambda>r. er_confidence r > 0.7) (take 4 rs)) \<ge> 3
                       then w * 1.1 else w)"
  define b' where "b' = (if length (filter (\<lambda>r. er_confidence r > 0.7) (take 4 rs')) \<ge> 3
                       then w' * 1.1 else w')"
  have bb: "b \<le> b'"
    using cnt w0 ww by (auto simp: b_def b'_def)
  have "calculate_overall_confidence rs = (if t > 0 then min (b / t) 1 else 0)"
    using False by (simp add: calculate_overall_confidence_def acc b_def)
  moreover have "calculate_overall_confidence rs' = (if t > 0 then min (b' / t) 1 else 0)"
    using ne' by (simp add: calculate_overall_confidence_def acc' b'_def)
  moreover have "t > 0 \<Longrightarrow> min (b / t) 1 \<le> min (b' / t) 1"
    using bb by (simp add: divide_right_mono min.coboundedI1)
  ultimately show ?thesis by simp
qed

lemma overall_confidence_le_1: "calculate_overall_confidence rs \<le> 1"
  by (simp add: calculate_overall_confidence_def Let_def split: prod.splits)

text \<open>
  C3 (counterexample). The aggregate is not monotone in every component: with the
  destination at 0.9 and the other results empty the aggregate is 0.9; raising the
  origin from 0.0 to 0.1 brings the origin's weight into the denominator and the
  aggregate falls to 0.5.
\<close>

theorem overall_confidence_not_monotone:
  "(0::real) \<le> 0.1 \<and>
   calculate_overall_confidence
     ([nothing, found 0.9, nothing, nothing][0 := with_confidence nothing 0.1]) = 0.5 \<and>
   calculate_overall_confidence
     ([nothing, found 0.9, nothing, nothing][0 := with_confidence nothing 0.0]) = 0.9"
  by (simp add: calculate_overall_confidence_def with_confidence_def nothing_def found_def
      enumerate_eq_zip upt_rec weight_of_index_def field_weights_def Str_def)

text \<open>
  C3 (amended). For every list of component results: replacing the confidence of one
  component by \<open>c1\<close> or by \<open>c2\<close>, where \<open>0 < c1 \<le> c2\<close>, and holding the others fixed,
  the aggregate for \<open>c1\<close> is at most the aggregate for \<open>c2\<close>; and the aggregate of any
  list is at most 1.0, whatever the 1.1 bonus does.
\<close>

theorem overall_confidence_monotone_positive:
  "(i < length rs \<and> 0 < c1 \<and> c1 \<le> c2 \<longrightarrow>
      calculate_overall_confidence (rs[i := with_confidence (rs ! i) c1])
        \<le> calculate_overall_confidence (rs[i := with_confidence (rs ! i) c2])) \<and>
   calculate_overall_confidence rs \<le> 1.0"
proof (intro conjI impI)
  assume h: "i < length rs \<and> 0 < c1 \<and> c1 \<le> c2"
  have "list_all2 (\<lambda>a b. er_confidence a = er_confidence b \<or>
           (0 < er_confidence a \<and> er_confidence a \<le> er_confidence b))
          (rs[i := with_confidence (rs ! i) c1]) (rs[i := with_confidence (rs ! i) c2])"
    using h by (auto simp: list_all2_conv_all_nth nth_list_update with_confidence_def)
  then show "calculate_overall_confidence (rs[i := with_confidence (rs ! i) c1])
        \<le> calculate_overall_confidence (rs[i := with_confidence (rs ! i) c2])"
    by (rule overall_confidence_grown)
next
  show "calculate_overall_confidence rs \<le> 1.0"
    using overall_confidence_le_1 [of rs] by simp
qed

theorem overall_confidence_monotone_positive_witness:
  "(1::nat) < length [found 0.2, found 0.5, nothing, found 0.9] \<and> (0::real) < 0.5 \<and>
   (0.5::real) \<le> 0.8 \<and>
   calculate_overall_confidence
     ([found 0.2, found 0.5, nothing, found 0.9][1 := with_confidence (found 0.5) 0.5])
     \<le> calculate_overall_confidence
     ([found 0.2, found 0.5, nothing, found 0.9][1 := with_confidence (found 0.5) 0.8])"
  using overall_confidence_monotone_positive
    [of 1 "[found 0.2, found 0.5, nothing, found 0.9]" "0.5" "0.8"]
  by simp

end
